theory Spec2Isabelle
  imports Main
begin

section \<open>JavaScript strings\<close>

text \<open>
  A JavaScript string is a sequence of UTF-16 code units; \<open>length\<close>, indexing and
  regular expressions without the \<open>u\<close> flag all work on code units. A code unit is
  modelled as a natural number (only values below 65536 occur in a real string, and
  nothing below depends on that bound), a string as a list of them. \<open>js\<close> turns an
  ASCII literal into such a string; the backslash, which has no literal, is \<open>bsl\<close>.
\<close>

type_synonym jsstring = "nat list"

definition js :: "string \<Rightarrow> jsstring" where
  "js s = map of_char s"

abbreviation bsl :: nat where
  "bsl \<equiv> 92"

definition isLineTerminator :: "nat \<Rightarrow> bool" where
  "isLineTerminator c = (c = 10 \<or> c = 13 \<or> c = 0x2028 \<or> c = 0x2029)"

text \<open>The class \<open>\s\<close>, which is also what \<open>trim\<close> strips: WhiteSpace and LineTerminator.\<close>

definition isWhiteSpace :: "nat \<Rightarrow> bool" where
  "isWhiteSpace c =
     (c = 9 \<or> c = 10 \<or> c = 11 \<or> c = 12 \<or> c = 13 \<or> c = 32 \<or> c = 160 \<or> c = 0x1680
      \<or> (0x2000 \<le> c \<and> c \<le> 0x200A) \<or> c = 0x2028 \<or> c = 0x2029 \<or> c = 0x202F
      \<or> c = 0x205F \<or> c = 0x3000 \<or> c = 0xFEFF)"

definition slice :: "jsstring \<Rightarrow> nat \<Rightarrow> nat \<Rightarrow> jsstring" where
  \<comment> \<open>\<open>t.slice(a, b)\<close> for non-negative indices: empty when \<open>b \<le> a\<close>, clamped to the length.\<close>
  "slice t a b = take (b - a) (drop a t)"

definition substring :: "jsstring \<Rightarrow> nat \<Rightarrow> nat \<Rightarrow> jsstring" where
  \<comment> \<open>\<open>t.substring(a, b)\<close> swaps its arguments when \<open>a > b\<close>.\<close>
  "substring t a b = slice t (min a b) (max a b)"

definition trim :: "jsstring \<Rightarrow> jsstring" where
  "trim t = rev (dropWhile isWhiteSpace (rev (dropWhile isWhiteSpace t)))"

definition startsWith :: "jsstring \<Rightarrow> jsstring \<Rightarrow> bool" where
  "startsWith t p = (take (length p) t = p)"

definition endsWith :: "jsstring \<Rightarrow> jsstring \<Rightarrow> bool" where
  "endsWith t p = (length p \<le> length t \<and> drop (length t - length p) t = p)"

fun includes_str :: "jsstring \<Rightarrow> jsstring \<Rightarrow> bool" where
  "includes_str [] p = (p = [])"
| "includes_str (c # t) p = (startsWith (c # t) p \<or> includes_str t p)"

definition lastIndexOf :: "jsstring \<Rightarrow> nat \<Rightarrow> int \<Rightarrow> int" where
  \<comment> \<open>\<open>t.lastIndexOf(c, p)\<close> for a one-unit search string: the start is \<open>p\<close> clamped to
      \<open>0 .. length - 1\<close>, the result \<open>-1\<close> when nothing is found.\<close>
  "lastIndexOf t c p =
     (if t = [] then - 1
      else (let start = min (nat (max p 0)) (length t - 1)
            in case filter (\<lambda>j. t ! j = c) (rev [0 ..< Suc start]) of
                 [] \<Rightarrow> - 1
               | j # _ \<Rightarrow> int j))"

fun digits :: "nat \<Rightarrow> nat \<Rightarrow> jsstring" where
  "digits 0 n = []"
| "digits (Suc f) n = (if n < 10 then [48 + n] else digits f (n div 10) @ [48 + n mod 10])"

definition decimal :: "nat \<Rightarrow> jsstring" where
  \<comment> \<open>A non-negative integer in a template literal: its decimal digits.\<close>
  "decimal n = digits (Suc n) n"

section \<open>Regular expressions\<close>

text \<open>
  The regular expressions of the source are kept as terms, one constructor per
  construct of the pattern syntax they use. Every quantifier of the source applies to a
  single character atom, so \<open>Rep\<close> takes an atom, the bounds and whether it is greedy.
  \<open>Any\<close> is the dot under the \<open>s\<close> flag, \<open>Dot\<close> the dot without it. \<open>Bol\<close>/\<open>Eol\<close> are
  \<open>^\<close>/\<open>$\<close> without the \<open>m\<close> flag, \<open>BolM\<close>/\<open>EolM\<close> with it.
\<close>

datatype cset = One nat | Range nat nat | Space | Digit

fun in_cset :: "nat \<Rightarrow> cset \<Rightarrow> bool" where
  "in_cset c (One d) = (c = d)"
| "in_cset c (Range lo hi) = (lo \<le> c \<and> c \<le> hi)"
| "in_cset c Space = isWhiteSpace c"
| "in_cset c Digit = (48 \<le> c \<and> c \<le> 57)"

datatype atom = Any | Dot | In "cset list" | NotIn "cset list"

fun amatch :: "atom \<Rightarrow> nat \<Rightarrow> bool" where
  "amatch Any c = True"
| "amatch Dot c = (\<not> isLineTerminator c)"
| "amatch (In cs) c = list_ex (in_cset c) cs"
| "amatch (NotIn cs) c = (\<not> list_ex (in_cset c) cs)"

datatype re =
    A atom
  | Seq re re
  | Alt re re
  | Rep atom nat "nat option" bool
  | Grp nat re
  | Bref nat
  | Bol
  | Eol
  | BolM
  | EolM
  | Eps

record mstate =
  pos :: nat
  caps :: "(nat \<times> nat \<times> nat) list"

definition run :: "atom \<Rightarrow> jsstring \<Rightarrow> nat \<Rightarrow> nat" where
  \<comment> \<open>How many consecutive code units from position \<open>i\<close> the atom matches.\<close>
  "run a t i = length (takeWhile (amatch a) (drop i t))"

definition counts :: "nat \<Rightarrow> nat option \<Rightarrow> bool \<Rightarrow> nat \<Rightarrow> nat list" where
  \<comment> \<open>The repetition counts a quantifier tries, in the order it tries them: a greedy
      one from the most down, a lazy one from the least up.\<close>
  "counts mn mx greedy avail =
     (let hi = (case mx of None \<Rightarrow> avail | Some m \<Rightarrow> min m avail);
          ks = [mn ..< Suc hi]
      in if greedy then rev ks else ks)"

text \<open>
  \<open>ms t r st\<close> lists every way \<open>r\<close> matches in \<open>t\<close> from the state \<open>st\<close>, in the order
  in which the backtracking matcher of ECMAScript reaches them; the match \<open>exec\<close> reports
  is the first.
\<close>

fun ms :: "jsstring \<Rightarrow> re \<Rightarrow> mstate \<Rightarrow> mstate list" where
  "ms t (A a) st =
     (if pos st < length t \<and> amatch a (t ! pos st) then [st\<lparr>pos := Suc (pos st)\<rparr>] else [])"
| "ms t (Seq r1 r2) st = concat (map (ms t r2) (ms t r1 st))"
| "ms t (Alt r1 r2) st = ms t r1 st @ ms t r2 st"
| "ms t (Rep a mn mx greedy) st =
     map (\<lambda>k. st\<lparr>pos := pos st + k\<rparr>) (counts mn mx greedy (run a t (pos st)))"
| "ms t (Grp n r) st =
     map (\<lambda>st'. st'\<lparr>caps := (n, pos st, pos st') # caps st'\<rparr>) (ms t r st)"
| "ms t (Bref n) st =
     (case map_of (caps st) n of
        None \<Rightarrow> [st]
      | Some (b, e) \<Rightarrow>
          (if pos st + (e - b) \<le> length t \<and> slice t (pos st) (pos st + (e - b)) = slice t b e
           then [st\<lparr>pos := pos st + (e - b)\<rparr>] else []))"
| "ms t Bol st = (if pos st = 0 then [st] else [])"
| "ms t Eol st = (if pos st = length t then [st] else [])"
| "ms t BolM st = (if pos st = 0 \<or> isLineTerminator (t ! (pos st - 1)) then [st] else [])"
| "ms t EolM st = (if pos st = length t \<or> isLineTerminator (t ! pos st) then [st] else [])"
| "ms t Eps st = [st]"

fun seqs :: "re list \<Rightarrow> re" where
  "seqs [] = Eps"
| "seqs [r] = r"
| "seqs (r # rs) = Seq r (seqs rs)"

fun alts :: "re list \<Rightarrow> re" where
  "alts [] = Eps"
| "alts [r] = r"
| "alts (r # rs) = Alt r (alts rs)"

definition one :: "char \<Rightarrow> cset" where
  "one c = One (of_char c)"

definition rng :: "char \<Rightarrow> char \<Rightarrow> cset" where
  "rng a b = Range (of_char a) (of_char b)"

definition ch :: "char \<Rightarrow> re" where
  "ch c = A (In [one c])"

definition str :: "string \<Rightarrow> re" where
  "str s = seqs (map ch s)"

definition bs :: re where
  \<comment> \<open>An escaped backslash in a pattern.\<close>
  "bs = A (In [One bsl])"

definition chi :: "char \<Rightarrow> re" where
  \<comment> \<open>A letter of a pattern under the \<open>i\<close> flag: without the \<open>u\<close> flag no code unit
      above 127 is folded onto an ASCII letter, so it matches its two ASCII cases.\<close>
  "chi c =
     (let n = of_char c
      in if 97 \<le> n \<and> n \<le> 122 then A (In [One n, One (n - 32)])
         else if 65 \<le> n \<and> n \<le> 90 then A (In [One n, One (n + 32)])
         else A (In [One n]))"

definition stri :: "string \<Rightarrow> re" where
  "stri s = seqs (map chi s)"

definition match_at :: "re \<Rightarrow> jsstring \<Rightarrow> nat \<Rightarrow> mstate option" where
  \<comment> \<open>One attempt of the matcher at position \<open>i\<close>.\<close>
  "match_at r t i = (case ms t r \<lparr>pos = i, caps = []\<rparr> of [] \<Rightarrow> None | st # _ \<Rightarrow> Some st)"

function search :: "re \<Rightarrow> jsstring \<Rightarrow> nat \<Rightarrow> (nat \<times> mstate) option" where
  "search r t i =
     (if length t < i then None
      else case match_at r t i of
             Some st \<Rightarrow> Some (i, st)
           | None \<Rightarrow> search r t (Suc i))"
  by pat_completeness auto
termination
  by (relation "measure (\<lambda>(r, t, i). Suc (length t) - i)") auto

definition grp :: "jsstring \<Rightarrow> mstate \<Rightarrow> nat \<Rightarrow> jsstring option" where
  \<comment> \<open>Capture group \<open>n \<ge> 1\<close> of a match; \<open>None\<close> is \<open>undefined\<close>.\<close>
  "grp t st n = (case map_of (caps st) n of None \<Rightarrow> None | Some (b, e) \<Rightarrow> Some (slice t b e))"

definition grp0 :: "jsstring \<Rightarrow> nat \<times> mstate \<Rightarrow> jsstring" where
  \<comment> \<open>The matched text, \<open>m[0]\<close>.\<close>
  "grp0 t m = slice t (fst m) (pos (snd m))"

definition test :: "re \<Rightarrow> jsstring \<Rightarrow> bool" where
  \<comment> \<open>\<open>re.test(t)\<close> on a regular expression object whose \<open>lastIndex\<close> is 0, which is the
      case at every call of the source: each pattern is a literal evaluated anew.\<close>
  "test r t = (search r t 0 \<noteq> None)"

definition match :: "re \<Rightarrow> jsstring \<Rightarrow> (nat \<times> mstate) option" where
  \<comment> \<open>\<open>t.match(re)\<close> without the \<open>g\<close> flag.\<close>
  "match r t = search r t 0"

lemma counts_le:
  "k \<in> set (counts mn mx g avail) \<Longrightarrow> k \<le> avail"
  by (auto simp: counts_def Let_def split: option.splits if_splits)

lemma run_le: "run a t i \<le> length t - i"
  unfolding run_def by (rule order_trans [OF length_takeWhile_le]) simp

lemma ms_pos:
  "st' \<in> set (ms t r st) \<Longrightarrow> pos st \<le> length t \<Longrightarrow> pos st \<le> pos st' \<and> pos st' \<le> length t"
proof (induction r arbitrary: st st')
  case (Seq r1 r2)
  from Seq.prems obtain mid where m1: "mid \<in> set (ms t r1 st)" and m2: "st' \<in> set (ms t r2 mid)"
    by auto
  from Seq.IH(1) [OF m1 Seq.prems(2)] have a: "pos st \<le> pos mid" "pos mid \<le> length t"
    by simp_all
  from Seq.IH(2) [OF m2 a(2)] a show ?case
    by simp
next
  case (Rep a mn mx g)
  then obtain k where k: "k \<in> set (counts mn mx g (run a t (pos st)))" "st' = st\<lparr>pos := pos st + k\<rparr>"
    by auto
  from counts_le [OF k(1)] run_le [of a t "pos st"] Rep.prems(2) k(2) show ?case
    by simp
qed (auto split: if_splits option.splits)

lemma match_at_pos:
  "match_at r t i = Some st \<Longrightarrow> i \<le> length t \<Longrightarrow> i \<le> pos st \<and> pos st \<le> length t"
  using ms_pos [of st t r "\<lparr>pos = i, caps = []\<rparr>"]
  by (auto simp: match_at_def split: list.splits)

lemma search_pos:
  "search r t i = Some (s, st) \<Longrightarrow> i \<le> s \<and> s \<le> pos st \<and> pos st \<le> length t"
proof (induction r t i rule: search.induct)
  case (1 r t i)
  show ?case
  proof (cases "match_at r t i")
    case None
    with "1.prems" have "\<not> length t < i" "search r t (Suc i) = Some (s, st)"
      by (auto split: if_splits)
    with "1.IH" None show ?thesis
      by fastforce
  next
    case (Some st0)
    with "1.prems" have "\<not> length t < i" "s = i" "st = st0"
      by (auto split: if_splits)
    with match_at_pos [of r t i st0] Some show ?thesis
      by simp
  qed
qed

text \<open>
  \<open>while ((m = re.exec(t)) !== null)\<close> with the \<open>g\<close> flag: each round searches from
  \<open>lastIndex\<close>, which a round leaves at the end of its match. After an empty match
  \<open>lastIndex\<close> stays where it is and the loop of the source would not end; that is the
  branch without a recursive call. No pattern of the source matches the empty string
  (\<open>minlen\<close> below), so the branch is never taken.
\<close>

function execAll :: "re \<Rightarrow> jsstring \<Rightarrow> nat \<Rightarrow> (nat \<times> mstate) list" where
  "execAll r t i =
     (case search r t i of
        None \<Rightarrow> []
      | Some (s, st) \<Rightarrow> if s < pos st then (s, st) # execAll r t (pos st) else [])"
  by pat_completeness auto
termination
proof (relation "measure (\<lambda>(r, t, i). Suc (length t) - i)")
  fix r t i x s st
  assume "search r t i = Some x" "(s, st) = x" "s < pos st"
  then have "search r t i = Some (s, st)"
    by simp
  from search_pos [OF this] \<open>s < pos st\<close>
  have "i < pos st" "pos st \<le> length t"
    by simp_all
  then show "((r, t, pos st), (r, t, i)) \<in> measure (\<lambda>(r, t, i). Suc (length t) - i)"
    by auto
qed simp

text \<open>
  The matches a \<open>replace\<close> with a \<open>g\<close> pattern visits: as above, but \<open>replace\<close> steps
  over an empty match by one code unit.
\<close>

function matchAll :: "re \<Rightarrow> jsstring \<Rightarrow> nat \<Rightarrow> (nat \<times> mstate) list" where
  "matchAll r t i =
     (case search r t i of
        None \<Rightarrow> []
      | Some (s, st) \<Rightarrow> (s, st) # matchAll r t (if s < pos st then pos st else Suc s))"
  by pat_completeness auto
termination
proof (relation "measure (\<lambda>(r, t, i). Suc (length t) - i)")
  fix r t i x s st
  assume "search r t i = Some x" "(s, st) = x"
  then have "search r t i = Some (s, st)"
    by simp
  from search_pos [OF this]
  show "((r, t, if s < pos st then pos st else Suc s), (r, t, i))
          \<in> measure (\<lambda>(r, t, i). Suc (length t) - i)"
    by auto
qed simp


fun ngroups :: "re \<Rightarrow> nat" where
  "ngroups (Grp n r) = max n (ngroups r)"
| "ngroups (Seq r1 r2) = max (ngroups r1) (ngroups r2)"
| "ngroups (Alt r1 r2) = max (ngroups r1) (ngroups r2)"
| "ngroups r = 0"

text \<open>
  \<open>t.split(re)\<close>: \<open>p\<close> is the end of the last separator, \<open>q\<close> the position tried next.
  A match at \<open>q\<close> that ends at \<open>p\<close> is skipped; any other pushes the text from \<open>p\<close> to
  \<open>q\<close> and then the capture groups of the match (\<open>None\<close> for one that is \<open>undefined\<close>).
\<close>

function splitLoop :: "re \<Rightarrow> jsstring \<Rightarrow> nat \<Rightarrow> nat \<Rightarrow> jsstring option list" where
  "splitLoop r t p q =
     (if q < length t then
        (case match_at r t q of
           None \<Rightarrow> splitLoop r t p (Suc q)
         | Some st \<Rightarrow>
             (let e = min (pos st) (length t)
              in if e = p then splitLoop r t p (Suc q)
                 else Some (slice t p q) # map (grp t st) [1 ..< Suc (ngroups r)]
                        @ splitLoop r t e e))
      else [Some (slice t p (length t))])"
  by pat_completeness auto
termination
proof (relation "measures [\<lambda>(r, t, p, q). length t - q, \<lambda>(r, t, p, q). if p = q then 0 else 1]")
  fix r t p q st e
  assume q: "q < length t" and m: "match_at r t q = Some st"
    and e: "e = min (pos st) (length t)" and ne: "e \<noteq> p"
  from match_at_pos [OF m] q have "q \<le> pos st" "pos st \<le> length t"
    by simp_all
  with e have "q \<le> e" "e \<le> length t"
    by simp_all
  with ne q
  show "((r, t, e, e), (r, t, p, q))
          \<in> measures [\<lambda>(r, t, p, q). length t - q, \<lambda>(r, t, p, q). if p = q then 0 else 1]"
    by (cases "e = q") auto
qed auto

definition split :: "re \<Rightarrow> jsstring \<Rightarrow> jsstring option list" where
  "split r t =
     (if t = [] then (if match_at r t 0 \<noteq> None then [] else [Some t])
      else splitLoop r t 0 0)"

definition lits :: "jsstring \<Rightarrow> re" where
  \<comment> \<open>The pattern that matches exactly the given text.\<close>
  "lits s = seqs (map (\<lambda>c. A (In [One c])) s)"

definition splitStr :: "jsstring \<Rightarrow> jsstring \<Rightarrow> jsstring list" where
  \<comment> \<open>\<open>t.split(sep)\<close> for a non-empty string \<open>sep\<close>: the same loop, the separator
      matched literally and nothing captured.\<close>
  "splitStr t sep = List.map_filter id (split (lits sep) t)"

definition join :: "jsstring option list \<Rightarrow> jsstring" where
  \<comment> \<open>\<open>parts.join("")\<close>: an \<open>undefined\<close> element counts as the empty string.\<close>
  "join parts = concat (map (case_option [] id) parts)"

section \<open>LaTeX utilities\<close>

text \<open>An entry of \<open>tags\<close> in \<open>findTopLevelEnvs\<close>, and a found environment.\<close>

record tag =
  type :: jsstring
  env :: jsstring
  index :: nat
  len :: nat

record latexEnv =
  start :: nat
  end' :: nat
  content :: jsstring

definition tagPattern :: re where
  \<comment> \<open>\<^verbatim>\<open>/\\(begin|end)\{([^}]+)\}/g\<close>\<close>
  "tagPattern =
     seqs [bs, Grp 1 (Alt (str ''begin'') (str ''end'')), ch CHR ''{'',
           Grp 2 (Rep (NotIn [one CHR ''}'']) 1 None True), ch CHR ''}'']"

definition the_grp :: "jsstring \<Rightarrow> mstate \<Rightarrow> nat \<Rightarrow> jsstring" where
  \<comment> \<open>A group read where the source uses it as a string: \<open>undefined\<close> is kept apart by
      \<open>grp\<close>; here it reads as the empty text, which no use below depends on.\<close>
  "the_grp t st n = (case grp t st n of None \<Rightarrow> [] | Some g \<Rightarrow> g)"

definition mkTag :: "jsstring \<Rightarrow> nat \<times> mstate \<Rightarrow> tag" where
  "mkTag t m =
     \<lparr>type = the_grp t (snd m) 1, env = the_grp t (snd m) 2,
      index = fst m, len = pos (snd m) - fst m\<rparr>"

definition tags :: "jsstring \<Rightarrow> tag list" where
  "tags t = map (mkTag t) (execAll tagPattern t 0)"

text \<open>
  One round of the loop over the tags. The stack grows at its end: \<open>push\<close> appends, the
  top is \<open>last\<close>, \<open>pop\<close> removes it.
\<close>

definition envStep :: "jsstring \<Rightarrow> tag list \<times> latexEnv list \<Rightarrow> tag \<Rightarrow> tag list \<times> latexEnv list" where
  "envStep t s g =
     (let stack = fst s; envs = snd s
      in if type g = js ''begin'' then (stack @ [g], envs)
         else if type g = js ''end'' \<and> stack \<noteq> [] then
           (if env (last stack) = env g then
              (let startTag = last stack; stack' = butlast stack
               in if stack' = [] then
                    (stack', envs @ [\<lparr>start = index startTag, end' = index g + len g,
                                      content = substring t (index startTag) (index g + len g)\<rparr>])
                  else (stack', envs))
            else (stack, envs))
         else (stack, envs))"

definition findTopLevelEnvs :: "jsstring \<Rightarrow> latexEnv list" where
  "findTopLevelEnvs t = sort_key start (snd (foldl (envStep t) ([], []) (tags t)))"

definition splitPattern :: re where
  \<comment> \<open>\<^verbatim>\<open>/(\\\(.+?\\\)|\$\$.*?\$\$|\$.*?\$|\\\[.*?\\\])/gs\<close>\<close>
  "splitPattern =
     Grp 1 (alts
       [seqs [bs, ch CHR ''('', Rep Any 1 None False, bs, ch CHR '')''],
        seqs [str ''$$'', Rep Any 0 None False, str ''$$''],
        seqs [ch CHR ''$'', Rep Any 0 None False, ch CHR ''$''],
        seqs [bs, ch CHR ''['', Rep Any 0 None False, bs, ch CHR '']'']])"

definition splitLatex :: "jsstring \<Rightarrow> jsstring option list" where
  "splitLatex latex = split splitPattern latex"

definition isInlineLatexFragment :: "jsstring \<Rightarrow> jsstring option" where
  \<comment> \<open>\<^verbatim>\<open>/^\\\((.+?)\\\)$/s\<close>; the result is group 1 of the match.\<close>
  "isInlineLatexFragment fragment =
     (case match (seqs [Bol, bs, ch CHR ''('', Grp 1 (Rep Any 1 None False), bs, ch CHR '')'', Eol])
             fragment of
        None \<Rightarrow> None
      | Some m \<Rightarrow> Some (the_grp fragment (snd m) 1))"

definition smallVariablePattern :: re where
  \<comment> \<open>\<^verbatim>\<open>/^\\\(\s*([a-zA-Z_0-9]{1,3})\s*\\\)$/s\<close>\<close>
  "smallVariablePattern =
     seqs [Bol, bs, ch CHR ''('', Rep (In [Space]) 0 None True,
           Grp 1 (Rep (In [rng CHR ''a'' CHR ''z'', rng CHR ''A'' CHR ''Z'', one CHR ''_'',
                           rng CHR ''0'' CHR ''9'']) 1 (Some 3) True),
           Rep (In [Space]) 0 None True, bs, ch CHR '')'', Eol]"

definition isSmallVariableLatex :: "jsstring \<Rightarrow> jsstring option" where
  \<comment> \<open>The result is the \<open>content\<close> field of the \<open>VariableMatch\<close>.\<close>
  "isSmallVariableLatex fragment =
     (case match smallVariablePattern fragment of
        None \<Rightarrow> None
      | Some m \<Rightarrow>
          (let content = the_grp fragment (snd m) 1
           in if includes_str content [bsl] \<or> includes_str content (js ''{'')
                 \<or> includes_str content (js ''}'') \<or> includes_str content (js ''^'')
                 \<or> includes_str content (js ''_'') \<or> includes_str content (js ''frac'')
              then None else Some content))"

definition simpleVariablePattern :: re where
  \<comment> \<open>\<^verbatim>\<open>/^\$([a-zA-Z][a-zA-Z0-9_]{0,2})\$$/s\<close>\<close>
  "simpleVariablePattern =
     seqs [Bol, ch CHR ''$'',
           Grp 1 (Seq (A (In [rng CHR ''a'' CHR ''z'', rng CHR ''A'' CHR ''Z'']))
                      (Rep (In [rng CHR ''a'' CHR ''z'', rng CHR ''A'' CHR ''Z'',
                                rng CHR ''0'' CHR ''9'', one CHR ''_'']) 0 (Some 2) True)),
           ch CHR ''$'', Eol]"

definition isSimpleVariable :: "jsstring \<Rightarrow> jsstring option" where
  "isSimpleVariable fragment =
     (case match simpleVariablePattern fragment of
        None \<Rightarrow> None
      | Some m \<Rightarrow>
          (let content = the_grp fragment (snd m) 1
           in if includes_str content [bsl] \<or> includes_str content (js ''{'')
                 \<or> includes_str content (js ''}'') \<or> includes_str content (js ''^'')
                 \<or> includes_str content (js ''_'') \<or> includes_str content (js ''frac'')
                 \<or> includes_str content (js ''+'') \<or> includes_str content (js ''-'')
                 \<or> includes_str content (js ''*'') \<or> includes_str content (js ''/'')
                 \<or> includes_str content (js ''='') \<or> includes_str content (js ''('')
                 \<or> includes_str content (js '')'') \<or> length content > 3
              then None else Some content))"

definition isBlockLatexFragment :: "jsstring \<Rightarrow> jsstring option" where
  \<comment> \<open>\<^verbatim>\<open>/^\\\[(.+?)\\\]$/s\<close>, or else \<^verbatim>\<open>/^\$\$(.*?)\$\$$/s\<close>; the result is group 1 of the
      match that was found (neither pattern has a second group).\<close>
  "isBlockLatexFragment fragment =
     (case match (seqs [Bol, bs, ch CHR ''['', Grp 1 (Rep Any 1 None False), bs, ch CHR '']'', Eol])
             fragment of
        Some m \<Rightarrow> Some (the_grp fragment (snd m) 1)
      | None \<Rightarrow>
          (case match (seqs [Bol, str ''$$'', Grp 1 (Rep Any 0 None False), str ''$$'', Eol])
                  fragment of
             Some m \<Rightarrow> Some (the_grp fragment (snd m) 1)
           | None \<Rightarrow> None))"

definition latexFunctions :: "string list" where
  "latexFunctions =
     [''frac'', ''sqrt'', ''int'', ''sum'', ''prod'', ''lim'', ''sin'', ''cos'', ''tan'', ''log'',
      ''ln'', ''exp'', ''times'', ''cup'', ''cap'', ''subset'', ''supset'', ''in'', ''notin'',
      ''forall'', ''exists'', ''therefore'', ''propto'']"

definition letter :: "cset list" where
  \<comment> \<open>\<^verbatim>\<open>[a-zA-Z]\<close>\<close>
  "letter = [rng CHR ''a'' CHR ''z'', rng CHR ''A'' CHR ''Z'']"

definition operatorPattern :: re where
  \<comment> \<open>\<^verbatim>\<open>/[+\-*/=<>...]/\<close>: the seven ASCII operators and the nineteen symbols of the
      source, from U+2264 (less-or-equal) to U+221D (proportional to)\<close>
  "operatorPattern =
     A (In [one CHR ''+'', one CHR ''-'', one CHR ''*'', one CHR ''/'', one CHR ''='',
            one CHR ''<'', one CHR ''>'', One 0x2264, One 0x2265, One 0x2260, One 0xB1,
            One 0x221E, One 0x2211, One 0x220F, One 0x222B, One 0x222A, One 0x2229,
            One 0x2208, One 0x2209, One 0x2286, One 0x2287, One 0x2205, One 0x2200,
            One 0x2203, One 0x2234, One 0x221D])"

definition functionPattern :: re where
  \<comment> \<open>\<^verbatim>\<open>/\\(frac|sqrt|...|propto)/\<close>\<close>
  "functionPattern = Seq bs (alts (map str latexFunctions))"

definition parenPattern :: re where
  \<comment> \<open>\<^verbatim>\<open>/\([^)]*[+\-*/=,][^)]*\)/\<close>\<close>
  "parenPattern =
     seqs [ch CHR ''('', Rep (NotIn [one CHR '')'']) 0 None True,
           A (In [one CHR ''+'', one CHR ''-'', one CHR ''*'', one CHR ''/'', one CHR ''='',
                  one CHR '','']),
           Rep (NotIn [one CHR '')'']) 0 None True, ch CHR '')'']"

definition setPattern :: re where
  \<comment> \<open>\<^verbatim>\<open>/\{[^}]*[,=][^}]*\}/\<close>\<close>
  "setPattern =
     seqs [ch CHR ''{'', Rep (NotIn [one CHR ''}'']) 0 None True,
           A (In [one CHR '','', one CHR ''='']),
           Rep (NotIn [one CHR ''}'']) 0 None True, ch CHR ''}'']"

definition pairSetPattern :: re where
  \<comment> \<open>\<^verbatim>\<open>/\{[^}]*\([^)]*,[^)]*\)[^}]*\}/\<close>\<close>
  "pairSetPattern =
     seqs [ch CHR ''{'', Rep (NotIn [one CHR ''}'']) 0 None True, ch CHR ''('',
           Rep (NotIn [one CHR '')'']) 0 None True, ch CHR '','',
           Rep (NotIn [one CHR '')'']) 0 None True, ch CHR '')'',
           Rep (NotIn [one CHR ''}'']) 0 None True, ch CHR ''}'']"

definition scriptPattern :: re where
  \<comment> \<open>\<^verbatim>\<open>/[_^]/\<close>\<close>
  "scriptPattern = A (In [one CHR ''_'', one CHR ''^''])"

definition formulaPattern :: re where
  \<comment> \<open>\<^verbatim>\<open>/[A-Z][a-z]?_?\d+/\<close>\<close>
  "formulaPattern =
     seqs [A (In [rng CHR ''A'' CHR ''Z'']), Rep (In [rng CHR ''a'' CHR ''z'']) 0 (Some 1) True,
           Rep (In [one CHR ''_'']) 0 (Some 1) True, Rep (In [Digit]) 1 None True]"

definition commandPattern :: re where
  \<comment> \<open>\<^verbatim>\<open>/\\[a-zA-Z]+/\<close>\<close>
  "commandPattern = Seq bs (Rep (In letter) 1 None True)"

definition numberVariablePattern :: re where
  \<comment> \<open>\<^verbatim>\<open>/\d+\s*[a-zA-Z]/\<close>\<close>
  "numberVariablePattern =
     seqs [Rep (In [Digit]) 1 None True, Rep (In [Space]) 0 None True, A (In letter)]"

definition assignmentPattern :: re where
  \<comment> \<open>\<^verbatim>\<open>/[a-zA-Z]\s*[=]\s*[^,}]/\<close>\<close>
  "assignmentPattern =
     seqs [A (In letter), Rep (In [Space]) 0 None True, A (In [one CHR ''='']),
           Rep (In [Space]) 0 None True, A (NotIn [one CHR '','', one CHR ''}''])]"

definition mathPatterns :: "re list" where
  "mathPatterns =
     [operatorPattern, functionPattern, parenPattern, setPattern, pairSetPattern,
      scriptPattern, formulaPattern, commandPattern, numberVariablePattern,
      assignmentPattern]"

definition isSelectiveInlineLatex :: "jsstring \<Rightarrow> jsstring option" where
  \<comment> \<open>\<^verbatim>\<open>/^\$(.+?)\$$/s\<close>, then some pattern of \<open>mathPatterns\<close> on group 1; the result is
      group 1.\<close>
  "isSelectiveInlineLatex fragment =
     (case match (seqs [Bol, ch CHR ''$'', Grp 1 (Rep Any 1 None False), ch CHR ''$'', Eol])
             fragment of
        None \<Rightarrow> None
      | Some m \<Rightarrow>
          (let content = the_grp fragment (snd m) 1
           in if list_ex (\<lambda>pattern. test pattern content) mathPatterns then Some content
              else None))"

definition environmentPattern :: re where
  \<comment> \<open>\<^verbatim>\<open>/^\\begin\{([^}]+)\}(.*?)\\end\{\1\}$/s\<close>\<close>
  "environmentPattern =
     seqs [Bol, bs, str ''begin{'', Grp 1 (Rep (NotIn [one CHR ''}'']) 1 None True), ch CHR ''}'',
           Grp 2 (Rep Any 0 None False), bs, str ''end{'', Bref 1, ch CHR ''}'', Eol]"

definition isLatexEnvironment :: "jsstring \<Rightarrow> jsstring option" where
  \<comment> \<open>The result is group 1 of the match, the name of the environment.\<close>
  "isLatexEnvironment fragment =
     (case match environmentPattern fragment of
        None \<Rightarrow> None
      | Some m \<Rightarrow> Some (the_grp fragment (snd m) 1))"

definition dangerousLatexPatterns :: "re list" where
  "dangerousLatexPatterns =
     [Seq bs (str ''input{''), Seq bs (str ''include{''), Seq bs (str ''write''),
      Seq bs (str ''read''), Seq bs (str ''openin''), Seq bs (str ''openout''),
      Seq bs (str ''immediate''), Seq bs (str ''special''), Seq bs (str ''pdfliteral'')]"

definition validateLatexInput :: "jsstring \<Rightarrow> bool" where
  "validateLatexInput input = (\<not> list_ex (\<lambda>pattern. test pattern input) dangerousLatexPatterns)"


section \<open>Replacing\<close>

text \<open>
  \<open>t.replace(re, f)\<close> with the \<open>g\<close> flag. The function \<open>f\<close> gets the match and a state
  (the counters and maps that the callbacks of the source update) and returns the
  replacement and the new state.
\<close>

fun replaceLoop ::
  "jsstring \<Rightarrow> ('s \<Rightarrow> nat \<times> mstate \<Rightarrow> jsstring \<times> 's) \<Rightarrow> (nat \<times> mstate) list \<Rightarrow> nat \<Rightarrow> 's
     \<Rightarrow> jsstring \<times> 's" where
  "replaceLoop t f [] p s = (drop p t, s)"
| "replaceLoop t f (m # others) p s =
     (let (rep, s') = f s m;
          (rest, s'') = replaceLoop t f others (pos (snd m)) s'
      in (slice t p (fst m) @ rep @ rest, s''))"

definition replaceAllWith ::
  "re \<Rightarrow> jsstring \<Rightarrow> ('s \<Rightarrow> nat \<times> mstate \<Rightarrow> jsstring \<times> 's) \<Rightarrow> 's \<Rightarrow> jsstring \<times> 's" where
  "replaceAllWith r t f s = replaceLoop t f (matchAll r t 0) 0 s"

definition replaceAll :: "re \<Rightarrow> jsstring \<Rightarrow> (nat \<times> mstate \<Rightarrow> jsstring) \<Rightarrow> jsstring" where
  "replaceAll r t g = fst (replaceAllWith r t (\<lambda>s m. (g m, s)) ())"

definition replaceFirst :: "re \<Rightarrow> jsstring \<Rightarrow> jsstring \<Rightarrow> jsstring" where
  \<comment> \<open>\<open>t.replace(re, rep)\<close> without the \<open>g\<close> flag, \<open>rep\<close> free of \<open>$\<close>.\<close>
  "replaceFirst r t rep =
     (case search r t 0 of None \<Rightarrow> t | Some (s, st) \<Rightarrow> take s t @ rep @ drop (pos st) t)"

section \<open>Elements\<close>

text \<open>
  What the rendering functions return: React elements, not yet rendered. A host element
  or a component is its name, its props in the order of the source (values as text; a
  number by its digits; \<open>errorCallback\<close>, which only logs, left out) and its children,
  where an array among the children stands for its members. \<open>JMarkdown\<close> is
  \<open><ReactMarkdown>\<close>: its props, its text and, when it is given \<open>components\<close>, the
  placeholder map those substitute into the rendered text. \<open>JInherited k\<close> is the value
  that a lookup of \<open>k\<close> in an object literal finds on \<open>Object.prototype\<close>.
\<close>

datatype jsx =
    JText jsstring
  | JElem string "(string \<times> jsstring) list" "jsx list"
  | JMarkdown "(string \<times> jsstring) list" jsstring "(jsstring \<times> jsx) list option"
  | JInherited jsstring

section \<open>The placeholder pass\<close>

text \<open>
  \<open>processTextFragmentWithPlaceholders\<close> and \<open>renderItemContent\<close> contain the same four
  replacements, over one counter and one map: SMILES tags, then inline math (kept as it
  is when it is a simple or small variable, or a \<open>$...$\<close> that is not selective math),
  then the two kinds of variables into Markdown emphasis.
\<close>

definition smilesTagPattern :: re where
  \<comment> \<open>\<^verbatim>\<open>/<smiles>(.*?)<\/smiles>/g\<close>, without the \<open>s\<close> flag\<close>
  "smilesTagPattern = seqs [str ''<smiles>'', Grp 1 (Rep Dot 0 None False), str ''</smiles>'']"

definition inlineMathPattern :: re where
  \<comment> \<open>\<^verbatim>\<open>/(\\\(.*?\\\)|\$[^$\s][^$]*[^$\s]\$|\$[^$\s]+\$)/gs\<close>\<close>
  "inlineMathPattern =
     Grp 1 (alts
       [seqs [bs, ch CHR ''('', Rep Any 0 None False, bs, ch CHR '')''],
        seqs [ch CHR ''$'', A (NotIn [one CHR ''$'', Space]), Rep (NotIn [one CHR ''$'']) 0 None True,
              A (NotIn [one CHR ''$'', Space]), ch CHR ''$''],
        seqs [ch CHR ''$'', Rep (NotIn [one CHR ''$'', Space]) 1 None True, ch CHR ''$'']])"

definition simpleVariableG :: re where
  \<comment> \<open>\<^verbatim>\<open>/\$([a-zA-Z][a-zA-Z0-9_]{0,2})\$/g\<close>\<close>
  "simpleVariableG =
     seqs [ch CHR ''$'',
           Grp 1 (Seq (A (In letter))
                      (Rep (In [rng CHR ''a'' CHR ''z'', rng CHR ''A'' CHR ''Z'',
                                rng CHR ''0'' CHR ''9'', one CHR ''_'']) 0 (Some 2) True)),
           ch CHR ''$'']"

definition smallVariableG :: re where
  \<comment> \<open>\<^verbatim>\<open>/\\\(([a-zA-Z][a-zA-Z0-9]{0,2})\\\)/g\<close>\<close>
  "smallVariableG =
     seqs [bs, ch CHR ''('',
           Grp 1 (Seq (A (In letter))
                      (Rep (In [rng CHR ''a'' CHR ''z'', rng CHR ''A'' CHR ''Z'',
                                rng CHR ''0'' CHR ''9'']) 0 (Some 2) True)),
           bs, ch CHR '')'']"

type_synonym placeholders = "nat \<times> (jsstring \<times> jsx) list"

definition smilesCallback :: "jsstring \<Rightarrow> placeholders \<Rightarrow> nat \<times> mstate \<Rightarrow> jsstring \<times> placeholders" where
  "smilesCallback t s m =
     (let placeholder = js ''SMILES_PLACEHOLDER_'' @ decimal (fst s)
      in (placeholder,
          (Suc (fst s),
           snd s @ [(placeholder,
                     JElem ''Smiles'' [(''key'', placeholder), (''code'', the_grp t (snd m) 1)] [])])))"

definition mathCallback :: "jsstring \<Rightarrow> placeholders \<Rightarrow> nat \<times> mstate \<Rightarrow> jsstring \<times> placeholders" where
  "mathCallback t s m =
     (let match = grp0 t m
      in if isSimpleVariable match \<noteq> None then (match, s)
         else if startsWith match (bsl # js ''('') \<and> endsWith match (bsl # js '')'')
                 \<and> isSmallVariableLatex match \<noteq> None then (match, s)
         else if startsWith match (js ''$'') \<and> \<not> startsWith match (js ''$$'')
                 \<and> isSelectiveInlineLatex match = None then (match, s)
         else
           (let placeholder = js ''MATH_PLACEHOLDER_'' @ decimal (fst s);
                math = (if startsWith match (bsl # js ''('')
                        then slice match 2 (length match - 2)
                        else slice match 1 (length match - 1))
            in (placeholder,
                (Suc (fst s),
                 snd s @ [(placeholder,
                           JElem ''InlineMath'' [(''key'', placeholder), (''math'', math)] [])]))))"

definition placeholderPass :: "jsstring \<Rightarrow> jsstring \<times> (jsstring \<times> jsx) list" where
  "placeholderPass textFragment =
     (let (c1, s1) = replaceAllWith smilesTagPattern textFragment (smilesCallback textFragment)
                       (0, []);
          (c2, s2) = replaceAllWith inlineMathPattern c1 (mathCallback c1) s1;
          c3 = replaceAll simpleVariableG c2 (\<lambda>m. js ''**'' @ the_grp c2 (snd m) 1 @ js ''**'');
          c4 = replaceAll smallVariableG c3 (\<lambda>m. js ''***'' @ the_grp c3 (snd m) 1 @ js ''***'')
      in (c4, snd s2))"

definition processTextFragmentWithPlaceholders :: "jsstring \<Rightarrow> nat \<Rightarrow> jsx" where
  "processTextFragmentWithPlaceholders textFragment idx =
     (let (processedContent, placeholderMap) = placeholderPass textFragment
      in JMarkdown [(''key'', js ''text-'' @ decimal idx)] processedContent (Some placeholderMap))"

section \<open>Markdown utilities\<close>

definition variableSplitPattern :: re where
  \<comment> \<open>\<^verbatim>\<open>/(\$[a-zA-Z][a-zA-Z0-9_]{0,2}\$|\\\([a-zA-Z][a-zA-Z0-9]{0,2}\\\))/g\<close>\<close>
  "variableSplitPattern =
     Grp 1 (Alt
       (seqs [ch CHR ''$'', A (In letter),
              Rep (In [rng CHR ''a'' CHR ''z'', rng CHR ''A'' CHR ''Z'', rng CHR ''0'' CHR ''9'',
                       one CHR ''_'']) 0 (Some 2) True,
              ch CHR ''$''])
       (seqs [bs, ch CHR ''('', A (In letter),
              Rep (In [rng CHR ''a'' CHR ''z'', rng CHR ''A'' CHR ''Z'', rng CHR ''0'' CHR ''9''])
                0 (Some 2) True,
              bs, ch CHR '')'']))"

definition part_text :: "jsstring option \<Rightarrow> jsstring" where
  \<comment> \<open>A part of a \<open>split\<close> read as text. The patterns split by here are one group around
      the whole match, so no part is \<open>undefined\<close> (\<open>splitLoop_join\<close>).\<close>
  "part_text part = (case part of None \<Rightarrow> [] | Some x \<Rightarrow> x)"

definition variableSpan :: "nat \<Rightarrow> jsstring \<Rightarrow> jsx" where
  "variableSpan idx part =
     (case isSimpleVariable part of
        Some v \<Rightarrow>
          JElem ''span'' [(''key'', decimal idx), (''className'', js ''font-bold''),
                          (''role'', js ''text''), (''aria-label'', js ''Variable '' @ v)]
            [JText v]
      | None \<Rightarrow>
          (case isSmallVariableLatex part of
             Some v \<Rightarrow>
               JElem ''span'' [(''key'', decimal idx), (''className'', js ''font-bold italic''),
                               (''role'', js ''math''),
                               (''aria-label'', js ''Mathematical variable '' @ v)]
                 [JText v]
           | None \<Rightarrow> JElem ''span'' [(''key'', decimal idx)] [JText part]))"

fun stringChild :: "jsx \<Rightarrow> jsstring option" where
  \<comment> \<open>\<open>props.children\<close> when it is a string.\<close>
  "stringChild (JElem n ps [JText x]) = Some x"
| "stringChild e = None"

definition processTextWithSmallVariables :: "jsstring \<Rightarrow> jsx list" where
  "processTextWithSmallVariables text =
     filter (\<lambda>part. stringChild part \<noteq> Some [])
       (map (\<lambda>(idx, part). variableSpan idx (part_text part))
          (enumerate 0 (split variableSplitPattern text)))"

definition mixedMathPattern :: re where
  \<comment> \<open>\<^verbatim>\<open>/(\\\[.*?\\\]|\$\$.*?\$\$|\\\(.*?\\\)|\$[^$\s][^$]*[^$\s]\$|\$[^$\s]+\$)/gs\<close>\<close>
  "mixedMathPattern =
     Grp 1 (alts
       [seqs [bs, ch CHR ''['', Rep Any 0 None False, bs, ch CHR '']''],
        seqs [str ''$$'', Rep Any 0 None False, str ''$$''],
        seqs [bs, ch CHR ''('', Rep Any 0 None False, bs, ch CHR '')''],
        seqs [ch CHR ''$'', A (NotIn [one CHR ''$'', Space]), Rep (NotIn [one CHR ''$'']) 0 None True,
              A (NotIn [one CHR ''$'', Space]), ch CHR ''$''],
        seqs [ch CHR ''$'', Rep (NotIn [one CHR ''$'', Space]) 1 None True, ch CHR ''$'']])"

definition skipVariable :: "jsstring \<Rightarrow> bool" where
  \<comment> \<open>The three tests after which the loops over math candidates \<open>continue\<close>.\<close>
  "skipVariable fragment =
     ((startsWith fragment (js ''$'') \<and> \<not> startsWith fragment (js ''$$'')
         \<and> isSimpleVariable fragment \<noteq> None)
      \<or> (startsWith fragment (bsl # js ''('') \<and> endsWith fragment (bsl # js '')'')
         \<and> isSmallVariableLatex fragment \<noteq> None)
      \<or> (startsWith fragment (js ''$'') \<and> \<not> startsWith fragment (js ''$$'')
         \<and> isSelectiveInlineLatex fragment = None))"

definition mixedStep ::
  "jsstring \<Rightarrow> jsx list \<times> nat \<Rightarrow> nat \<times> (nat \<times> mstate) \<Rightarrow> jsx list \<times> nat" where
  "mixedStep text s im =
     (let elements = fst s; currentIndex = snd s; idx = fst im; mathMatch = snd im;
          textBefore = slice text currentIndex (fst mathMatch);
          before = (if fst mathMatch > currentIndex \<and> textBefore \<noteq> []
                    then processTextWithSmallVariables textBefore else [])
      in (elements @ before
            @ [JElem ''span'' [(''key'', js ''math-'' @ decimal idx), (''className'', js ''math-content'')]
                 [JText (grp0 text mathMatch)]],
          pos (snd mathMatch)))"

definition processMixedContent :: "jsstring \<Rightarrow> jsx list" where
  "processMixedContent text =
     (let matches = filter (\<lambda>m. \<not> skipVariable (grp0 text m)) (execAll mixedMathPattern text 0);
          (elements, currentIndex) = foldl (mixedStep text) ([], 0) (enumerate 0 matches);
          remainingText = drop currentIndex text;
          elements' = (if currentIndex < length text \<and> remainingText \<noteq> []
                       then elements @ processTextWithSmallVariables remainingText
                       else elements)
      in if matches = [] then processTextWithSmallVariables text
         else filter (\<lambda>el. case stringChild el of Some x \<Rightarrow> trim x \<noteq> [] | None \<Rightarrow> True)
                elements')"

definition toLowerCase :: "jsstring \<Rightarrow> jsstring" where
  \<comment> \<open>\<open>t.toLowerCase()\<close> as far as its one caller can see it: the ASCII capitals, and the
      two other code units whose lower case holds an ASCII letter (U+212A, the Kelvin
      sign, and U+0130, capital I with dot). The lower case of any other code unit is
      not ASCII, and the caller deletes all but \<^verbatim>\<open>[a-z0-9\s]\<close> next.\<close>
  "toLowerCase t =
     concat (map (\<lambda>c. if 65 \<le> c \<and> c \<le> 90 then [c + 32]
                       else if c = 0x212A then [107]
                       else if c = 0x130 then [105, 0x307]
                       else [c]) t)"

definition sizeClasses :: "nat \<Rightarrow> jsstring" where
  "sizeClasses level =
     (if level = 1 then js ''text-3xl font-bold mb-4 mt-6''
      else if level = 2 then js ''text-2xl font-semibold mb-3 mt-5''
      else if level = 3 then js ''text-xl font-medium mb-2 mt-4''
      else if level = 4 then js ''text-lg font-medium mb-2 mt-3''
      else if level = 5 then js ''text-base font-medium mb-1 mt-2''
      else js ''text-sm font-medium mb-1 mt-2'')"

definition headingTag :: "nat \<Rightarrow> string" where
  \<comment> \<open>\<open>h${level}\<close>\<close>
  "headingTag level =
     (if level = 1 then ''h1'' else if level = 2 then ''h2'' else if level = 3 then ''h3''
      else if level = 4 then ''h4'' else if level = 5 then ''h5'' else ''h6'')"

definition renderHeading :: "jsstring \<Rightarrow> nat \<Rightarrow> jsx" where
  \<comment> \<open>The two replacements of \<open>headingId\<close> are \<^verbatim>\<open>/[^a-z0-9\s]/g\<close> and \<^verbatim>\<open>/\s+/g\<close>. The level
      comes from one to six \<open>#\<close>, so \<open>sizeClasses\<close> and \<open>headingTag\<close> always have an entry.\<close>
  "renderHeading text level =
     (let lower = toLowerCase text;
          kept = replaceAll (A (NotIn [rng CHR ''a'' CHR ''z'', rng CHR ''0'' CHR ''9'', Space])) lower
                   (\<lambda>m. []);
          dashed = replaceAll (Rep (In [Space]) 1 None True) kept (\<lambda>m. js ''-'');
          headingId = substring dashed 0 50
      in JElem (headingTag level)
           [(''id'', headingId), (''className'', sizeClasses level), (''tabIndex'', js ''-1'')]
           (processMixedContent text))"

definition dangerousMarkdownPatterns :: "re list" where
  \<comment> \<open>\<^verbatim>\<open>/javascript:/gi\<close>, \<^verbatim>\<open>/data:text\/html/gi\<close>, \<^verbatim>\<open>/vbscript:/gi\<close>, \<^verbatim>\<open>/<script[^>]*>/gi\<close> and the
      same for \<open>iframe\<close>, \<open>object\<close>, \<open>embed\<close>, \<open>link\<close> and \<open>meta\<close>\<close>
  "dangerousMarkdownPatterns =
     [stri ''javascript:'', stri ''data:text/html'', stri ''vbscript:'',
      seqs [stri ''<script'', Rep (NotIn [one CHR ''>'']) 0 None True, ch CHR ''>''],
      seqs [stri ''<iframe'', Rep (NotIn [one CHR ''>'']) 0 None True, ch CHR ''>''],
      seqs [stri ''<object'', Rep (NotIn [one CHR ''>'']) 0 None True, ch CHR ''>''],
      seqs [stri ''<embed'', Rep (NotIn [one CHR ''>'']) 0 None True, ch CHR ''>''],
      seqs [stri ''<link'', Rep (NotIn [one CHR ''>'']) 0 None True, ch CHR ''>''],
      seqs [stri ''<meta'', Rep (NotIn [one CHR ''>'']) 0 None True, ch CHR ''>'']]"

definition validateMarkdownContent :: "jsstring \<Rightarrow> bool" where
  "validateMarkdownContent content' =
     (if content' = [] then False
      else if length content' > 100000 then False
      else \<not> list_ex (\<lambda>pattern. test pattern content') dangerousMarkdownPatterns)"

section \<open>ContentParser\<close>

datatype matchType = TSmiles | THeading | TMath | TEnv

record contentMatch = latexEnv +
  type :: matchType

definition mkMatch :: "jsstring \<Rightarrow> matchType \<Rightarrow> nat \<times> mstate \<Rightarrow> contentMatch" where
  "mkMatch t ty m = \<lparr>start = fst m, end' = pos (snd m), content = grp0 t m, type = ty\<rparr>"

definition smilesPattern :: re where
  \<comment> \<open>\<^verbatim>\<open>/<smiles>.*?<\/smiles>/gs\<close>\<close>
  "smilesPattern = seqs [str ''<smiles>'', Rep Any 0 None False, str ''</smiles>'']"

definition findSmilesMatches :: "jsstring \<Rightarrow> contentMatch list \<Rightarrow> contentMatch list" where
  "findSmilesMatches t matches = matches @ map (mkMatch t TSmiles) (execAll smilesPattern t 0)"

definition headingPattern :: re where
  \<comment> \<open>\<^verbatim>\<open>/^(#{1,6})\s+(.+)$/gm\<close>\<close>
  "headingPattern =
     seqs [BolM, Grp 1 (Rep (In [one CHR ''#'']) 1 (Some 6) True), Rep (In [Space]) 1 None True,
           Grp 2 (Rep Dot 1 None True), EolM]"

definition findHeadingMatches :: "jsstring \<Rightarrow> contentMatch list \<Rightarrow> contentMatch list" where
  "findHeadingMatches t matches = matches @ map (mkMatch t THeading) (execAll headingPattern t 0)"

definition blockPattern :: re where
  \<comment> \<open>\<^verbatim>\<open>/(\$\$.*?\$\$|\\\[.*?\\\])/gs\<close>\<close>
  "blockPattern =
     Grp 1 (Alt (seqs [str ''$$'', Rep Any 0 None False, str ''$$''])
                (seqs [bs, ch CHR ''['', Rep Any 0 None False, bs, ch CHR '']'']))"

definition listBulletPattern :: re where
  \<comment> \<open>\<^verbatim>\<open>/^\s*[-*+]\s*$/\<close>\<close>
  "listBulletPattern =
     seqs [Bol, Rep (In [Space]) 0 None True, A (In [one CHR ''-'', one CHR ''*'', one CHR ''+'']),
           Rep (In [Space]) 0 None True, Eol]"

definition isInListContext :: "jsstring \<Rightarrow> nat \<Rightarrow> bool" where
  "isInListContext t idx =
     (let prevNewlineIdx = lastIndexOf t 10 (int idx - 1);
          lineStart = (if prevNewlineIdx = - 1 then 0 else nat (prevNewlineIdx + 1));
          prefix = slice t lineStart idx
      in test listBulletPattern prefix)"

definition shouldSkipMathFragment :: "jsstring \<Rightarrow> bool" where
  "shouldSkipMathFragment fragment =
     (if startsWith fragment (js ''$'') \<and> \<not> startsWith fragment (js ''$$'')
         \<and> isSimpleVariable fragment \<noteq> None then True
      else if startsWith fragment (bsl # js ''('') \<and> endsWith fragment (bsl # js '')'')
         \<and> isSmallVariableLatex fragment \<noteq> None then True
      else if startsWith fragment (js ''$'') \<and> \<not> startsWith fragment (js ''$$'')
         \<and> isSelectiveInlineLatex fragment = None then True
      else False)"

definition inlineStep :: "jsstring \<Rightarrow> contentMatch list \<Rightarrow> nat \<times> mstate \<Rightarrow> contentMatch list" where
  \<comment> \<open>One round of the loop over the inline candidates: three ways to \<open>continue\<close>, or a
      push.\<close>
  "inlineStep t matches inlineMatch =
     (let overlaps = list_ex (\<lambda>existing. fst inlineMatch < end' existing
                                 \<and> pos (snd inlineMatch) > start existing) matches
      in if overlaps then matches
         else if isInListContext t (fst inlineMatch) then matches
         else if shouldSkipMathFragment (grp0 t inlineMatch) then matches
         else matches @ [mkMatch t TMath inlineMatch])"

definition findMathMatches :: "jsstring \<Rightarrow> contentMatch list \<Rightarrow> contentMatch list" where
  "findMathMatches t matches =
     foldl (inlineStep t) (matches @ map (mkMatch t TMath) (execAll blockPattern t 0))
       (execAll inlineMathPattern t 0)"

definition findEnvironmentMatches :: "jsstring \<Rightarrow> contentMatch list \<Rightarrow> contentMatch list" where
  "findEnvironmentMatches t matches =
     matches @ map (\<lambda>e. \<lparr>start = start e, end' = end' e, content = content e, type = TEnv\<rparr>)
                 (findTopLevelEnvs t)"

definition isNested :: "(nat \<times> contentMatch) list \<Rightarrow> nat \<times> contentMatch \<Rightarrow> bool" where
  "isNested arr im =
     list_ex (\<lambda>jo. fst im \<noteq> fst jo \<and> start (snd im) \<ge> start (snd jo)
                   \<and> end' (snd im) \<le> end' (snd jo)) arr"

definition filterNestedMatches :: "contentMatch list \<Rightarrow> contentMatch list" where
  \<comment> \<open>\<open>sort\<close> is stable, as \<open>sort_key\<close> is.\<close>
  "filterNestedMatches matches =
     (let arr = enumerate 0 (sort_key start matches)
      in map snd (filter (\<lambda>im. \<not> isNested arr im) arr))"

definition parseContent :: "jsstring \<Rightarrow> contentMatch list" where
  "parseContent t =
     filterNestedMatches
       (findEnvironmentMatches t (findMathMatches t (findHeadingMatches t (findSmilesMatches t []))))"

section \<open>LatexProcessor\<close>

definition objectPrototypeKeys :: "string list" where
  "objectPrototypeKeys =
     [''constructor'', ''hasOwnProperty'', ''isPrototypeOf'', ''propertyIsEnumerable'',
      ''toLocaleString'', ''toString'', ''valueOf'', ''__proto__'', ''__defineGetter__'',
      ''__defineSetter__'', ''__lookupGetter__'', ''__lookupSetter__'']"

definition substitute :: "jsx list \<Rightarrow> jsstring \<times> jsx \<Rightarrow> jsx list" where
  \<comment> \<open>One round of \<open>placeholderMap.forEach\<close>: every string of \<open>result\<close> that includes the
      placeholder is split at it, the element put between the pieces and the empty
      pieces dropped.\<close>
  "substitute result pe =
     concat (map (\<lambda>item.
        case item of
          JText x \<Rightarrow>
            (if includes_str x (fst pe)
             then concat (map (\<lambda>(j, part). (if j > 0 then [snd pe] else [])
                                             @ (if part \<noteq> [] then [JText part] else []))
                            (enumerate 0 (splitStr x (fst pe))))
             else [item])
        | _ \<Rightarrow> [item]) result)"

definition envPlaceholderPattern :: re where
  \<comment> \<open>\<^verbatim>\<open>/(__LATEX_ENV_PLACEHOLDER_\d+__)/g\<close>\<close>
  "envPlaceholderPattern =
     Grp 1 (seqs [str ''__LATEX_ENV_PLACEHOLDER_'', Rep (In [Digit]) 1 None True, str ''__''])"

definition renderItemContent :: "(jsstring \<times> jsstring) list \<Rightarrow> jsstring \<Rightarrow> jsx list" where
  \<comment> \<open>\<open>filter(Boolean)\<close> drops the empty and the \<open>undefined\<close> parts. \<open>placeholders[part]\<close>
      finds an own key, whose value is never empty, or a key of \<open>Object.prototype\<close>.\<close>
  "renderItemContent placeholders itemContent =
     map (\<lambda>(i, part).
            case map_of placeholders part of
              Some original \<Rightarrow> JElem ''span'' [(''key'', decimal i)] [JText original]
            | None \<Rightarrow>
                (if part \<in> set (map js objectPrototypeKeys)
                 then JElem ''span'' [(''key'', decimal i)] [JInherited part]
                 else (let (processedPart, placeholderMap) = placeholderPass part
                       in JElem ''span'' [(''key'', decimal i)]
                            (foldl substitute [JText processedPart] placeholderMap))))
       (enumerate 0 (filter (\<lambda>part. part \<noteq> [])
                       (List.map_filter id (split envPlaceholderPattern itemContent))))"

definition envStripStep ::
  "jsstring \<Rightarrow> (jsstring \<times> jsstring) list \<times> jsstring \<times> nat \<Rightarrow> nat \<times> latexEnv
     \<Rightarrow> (jsstring \<times> jsstring) list \<times> jsstring \<times> nat" where
  "envStripStep innerContent s ie =
     (let placeholders = fst s; processedContent = fst (snd s); lastIndex = snd (snd s);
          placeholder = js ''__LATEX_ENV_PLACEHOLDER_'' @ decimal (fst ie) @ js ''__''
      in (placeholders @ [(placeholder, content (snd ie))],
          processedContent @ substring innerContent lastIndex (start (snd ie)) @ placeholder,
          end' (snd ie)))"

definition beginTagPattern :: re where
  \<comment> \<open>\<^verbatim>\<open>/^\\begin\{[^}]+\}/s\<close>\<close>
  "beginTagPattern =
     seqs [Bol, bs, str ''begin{'', Rep (NotIn [one CHR ''}'']) 1 None True, ch CHR ''}'']"

definition endTagPattern :: re where
  \<comment> \<open>\<^verbatim>\<open>/\\end\{[^}]+\}$/s\<close>\<close>
  "endTagPattern =
     seqs [bs, str ''end{'', Rep (NotIn [one CHR ''}'']) 1 None True, ch CHR ''}'', Eol]"

text \<open>
  The first half of \<open>parseLatexList\<close>: from the environment to the placeholder map and the
  texts of its items, not yet trimmed.
\<close>

definition latexListItems :: "jsstring \<Rightarrow> (jsstring \<times> jsstring) list \<times> jsstring list" where
  "latexListItems content' =
     (let innerContent = trim (replaceFirst endTagPattern (replaceFirst beginTagPattern content' []) []);
          subEnvs = findTopLevelEnvs innerContent;
          (placeholders, processed, lastIndex) =
             foldl (envStripStep innerContent) ([], [], 0) (enumerate 0 subEnvs);
          processedContent = processed @ drop lastIndex innerContent;
          items = filter (\<lambda>item. trim item \<noteq> [])
                    (List.map_filter id (split (Seq bs (str ''item'')) processedContent))
      in (placeholders,
          if items = [] \<and> trim processedContent \<noteq> [] then [trim processedContent] else items))"

definition descriptionPattern :: re where
  \<comment> \<open>\<^verbatim>\<open>/^\[([^\]]+)\]\s*(.*)$/s\<close>\<close>
  "descriptionPattern =
     seqs [Bol, ch CHR ''['', Grp 1 (Rep (NotIn [one CHR '']'']) 1 None True), ch CHR '']'',
           Rep (In [Space]) 0 None True, Grp 2 (Rep Any 0 None True), Eol]"

definition renderListItem ::
  "(jsstring \<times> jsstring) list \<Rightarrow> jsstring \<Rightarrow> nat \<times> jsstring \<Rightarrow> jsx" where
  "renderListItem placeholders environment ii =
     (let idx = fst ii; trimmedItem = trim (snd ii)
      in if environment = js ''description'' then
           (case match descriptionPattern trimmedItem of
              Some m \<Rightarrow>
                JElem ''div'' [(''key'', decimal idx), (''className'', js ''mb-2'')]
                  [JElem ''dt'' [(''className'', js ''font-semibold'')]
                     [JText (the_grp trimmedItem (snd m) 1)],
                   JElem ''dd'' [(''className'', js ''ml-4'')]
                     (renderItemContent placeholders (the_grp trimmedItem (snd m) 2))]
            | None \<Rightarrow>
                JElem ''div'' [(''key'', decimal idx), (''className'', js ''mb-2'')]
                  [JElem ''dd'' [(''className'', js ''ml-0'')]
                     (renderItemContent placeholders trimmedItem)])
         else JElem ''li'' [(''key'', decimal idx), (''className'', js ''mb-1'')]
                (renderItemContent placeholders trimmedItem))"

definition parseLatexList :: "jsstring \<Rightarrow> jsstring \<Rightarrow> jsx list" where
  "parseLatexList content' environment =
     (let (placeholders, items) = latexListItems content'
      in map (renderListItem placeholders environment) (enumerate 0 items))"

definition renderLatexEnvironment :: "jsstring \<Rightarrow> jsstring \<Rightarrow> jsx" where
  "renderLatexEnvironment environment content' =
     (let items = parseLatexList content' environment
      in if items = [] then
           JElem ''div''
             [(''className'', js ''bg-yellow-50 dark:bg-yellow-900/20 border border-yellow-200 dark:border-yellow-800 p-3 rounded-md my-4'')]
             [JElem ''p'' [(''className'', js ''text-sm text-yellow-800 dark:text-yellow-200 mb-2'')]
                [JText (js ''Malformed LaTeX ''), JText environment, JText (js '' environment:'')],
              JElem ''pre''
                [(''className'', js ''whitespace-pre-wrap text-sm text-gray-700 dark:text-gray-300'')]
                [JText content']]
         else if environment = js ''enumerate'' then
           JElem ''ol'' [(''className'', js ''list-decimal list-outside space-y-1 my-4 pl-5'')] items
         else if environment = js ''itemize'' then
           JElem ''ul'' [(''className'', js ''list-disc list-outside space-y-1 my-4 pl-5'')] items
         else if environment = js ''description'' then
           JElem ''dl'' [(''className'', js ''space-y-2 my-4 pl-5'')] items
         else
           JElem ''div''
             [(''className'', js ''bg-gray-50 dark:bg-gray-800 border border-gray-200 dark:border-gray-700 p-4 rounded-md my-4'')]
             [JElem ''p'' [(''className'', js ''text-sm text-gray-600 dark:text-gray-400 mb-2'')]
                [JText (js ''LaTeX ''), JText environment, JText (js '' environment:'')],
              JElem ''div'' [(''className'', js ''pl-4'')]
                [JElem ''ul'' [(''className'', js ''list-none space-y-1'')] items]])"

definition mathProp :: "jsstring \<Rightarrow> (string \<times> jsstring) list" where
  \<comment> \<open>\<open>math={blockMatch[1] || blockMatch[2]}\<close>: no pattern has a second group, so an empty
      first group leaves the prop \<open>undefined\<close>.\<close>
  "mathProp body = (if body = [] then [] else [(''math'', body)])"

definition renderPart :: "bool \<Rightarrow> nat \<times> jsstring \<Rightarrow> jsx" where
  \<comment> \<open>The body of the \<open>map\<close> over the parts of \<open>splitLatex\<close>, at the end of \<open>renderLatex\<close>.\<close>
  "renderPart forceInline ip =
     (let idx = fst ip; part = snd ip
      in case isBlockLatexFragment part of
           Some body \<Rightarrow>
             (if \<not> forceInline
              then JElem ''div'' [(''key'', decimal idx), (''className'', js ''my-2'')]
                     [JElem ''BlockMath'' (mathProp body) []]
              else JElem ''InlineMath'' ((''key'', decimal idx) # mathProp body) [])
         | None \<Rightarrow>
             (case isSimpleVariable part of
                Some v \<Rightarrow> JElem ''span'' [(''key'', decimal idx), (''className'', js ''font-bold'')] [JText v]
              | None \<Rightarrow>
                  (case isSmallVariableLatex part of
                     Some v \<Rightarrow>
                       JElem ''span'' [(''key'', decimal idx), (''className'', js ''font-bold italic'')]
                         [JText v]
                   | None \<Rightarrow>
                       (case isInlineLatexFragment part of
                          Some body \<Rightarrow> JElem ''InlineMath'' [(''key'', decimal idx), (''math'', body)] []
                        | None \<Rightarrow>
                            (case isSelectiveInlineLatex part of
                               Some body \<Rightarrow>
                                 JElem ''InlineMath'' [(''key'', decimal idx), (''math'', body)] []
                             | None \<Rightarrow>
                                 JElem ''span'' [(''className'', js ''whitespace-pre-line''),
                                                 (''key'', decimal idx)] [JText part])))))"

definition renderLatex :: "jsstring \<Rightarrow> bool \<Rightarrow> jsx" where
  "renderLatex latex forceInline =
     (case isLatexEnvironment latex of
        Some environment \<Rightarrow> renderLatexEnvironment environment latex
      | None \<Rightarrow>
          (let blockMatch = isBlockLatexFragment latex;
               inlineMatch = isInlineLatexFragment latex;
               selectiveMatch = isSelectiveInlineLatex latex;
               simpleVarMatch = isSimpleVariable latex;
               smallVarMatch = isSmallVariableLatex latex
           in if blockMatch \<noteq> None \<and> \<not> forceInline then
                JElem ''div'' [(''className'', js ''my-2'')]
                  [JElem ''BlockMath'' (mathProp (part_text blockMatch)) []]
              else if inlineMatch \<noteq> None then
                JElem ''InlineMath'' [(''math'', part_text inlineMatch)] []
              else if selectiveMatch \<noteq> None then
                JElem ''InlineMath'' [(''math'', part_text selectiveMatch)] []
              else if simpleVarMatch \<noteq> None then
                JElem ''span'' [(''className'', js ''font-bold'')] [JText (part_text simpleVarMatch)]
              else if smallVarMatch \<noteq> None then
                JElem ''span'' [(''className'', js ''font-bold italic'')]
                  [JText (part_text smallVarMatch)]
              else
                JElem ''Fragment'' []
                  (map (\<lambda>(idx, part). renderPart forceInline (idx, part_text part))
                     (enumerate 0 (splitLatex latex)))))"

section \<open>RichText\<close>

definition blockStartPattern :: re where
  \<comment> \<open>\<^verbatim>\<open>/^(\$\$|\\\[)/\<close>\<close>
  "blockStartPattern = Seq Bol (Grp 1 (Alt (str ''$$'') (Seq bs (ch CHR ''[''))))"

definition invalidLatexAlert :: "nat \<Rightarrow> jsx" where
  "invalidLatexAlert idx =
     JElem ''div''
       [(''key'', js ''error-'' @ decimal idx),
        (''className'', js ''bg-red-50 border border-red-200 rounded-md p-3''),
        (''role'', js ''alert''), (''aria-live'', js ''polite''),
        (''aria-label'', js ''LaTeX rendering error'')]
       [JElem ''p'' [(''className'', js ''text-red-800'')] [JText (js ''Invalid LaTeX content'')]]"

definition fallbackSpan :: "contentMatch \<Rightarrow> nat \<Rightarrow> jsx" where
  "fallbackSpan m idx = JElem ''span'' [(''key'', js ''fallback-'' @ decimal idx)] [JText (content m)]"

definition renderMatchedContent :: "contentMatch \<Rightarrow> nat \<Rightarrow> jsx" where
  \<comment> \<open>The patterns of the first two cases are \<^verbatim>\<open>/<smiles>(.*?)<\/smiles>/\<close> and
      \<^verbatim>\<open>/^(#{1,6})\s+(.+)$/\<close>, both without flags; those of the labels are
      \<^verbatim>\<open>/[\$\\\[\]]/g\<close> and \<^verbatim>\<open>/[\$\\\(\)]/g\<close>.\<close>
  "renderMatchedContent m idx =
     (case type m of
        TSmiles \<Rightarrow>
          (case match smilesTagPattern (content m) of
             None \<Rightarrow> fallbackSpan m idx
           | Some sm \<Rightarrow>
               (let smilesCode = the_grp (content m) (snd sm) 1
                in if smilesCode \<noteq> []
                   then JElem ''Smiles'' [(''key'', js ''smiles-'' @ decimal idx), (''code'', smilesCode)] []
                   else fallbackSpan m idx))
      | THeading \<Rightarrow>
          (case match (seqs [Bol, Grp 1 (Rep (In [one CHR ''#'']) 1 (Some 6) True),
                             Rep (In [Space]) 1 None True, Grp 2 (Rep Dot 1 None True), Eol])
                  (content m) of
             None \<Rightarrow> fallbackSpan m idx
           | Some hm \<Rightarrow>
               JElem ''div'' [(''key'', js ''heading-'' @ decimal idx)]
                 [renderHeading (the_grp (content m) (snd hm) 2)
                    (length (the_grp (content m) (snd hm) 1))])
      | _ \<Rightarrow>
          (if \<not> validateLatexInput (content m) then invalidLatexAlert idx
           else if match blockStartPattern (content m) \<noteq> None then
             JElem ''div''
               [(''key'', js ''latex-'' @ decimal idx), (''role'', js ''math''),
                (''aria-label'',
                   js ''Mathematical expression: ''
                   @ trim (replaceAll (A (In [one CHR ''$'', One bsl, one CHR ''['', one CHR '']'']))
                             (content m) (\<lambda>x. [])))]
               [renderLatex (content m) False]
           else
             JElem ''span''
               [(''key'', js ''latex-'' @ decimal idx), (''role'', js ''math''),
                (''aria-label'',
                   js ''Inline math: ''
                   @ trim (replaceAll (A (In [one CHR ''$'', One bsl, one CHR ''('', one CHR '')'']))
                             (content m) (\<lambda>x. [])))]
               [renderLatex (content m) True]))"

definition renderFallbackContent :: "jsstring \<Rightarrow> bool \<Rightarrow> jsx" where
  \<comment> \<open>The second replacement is \<^verbatim>\<open>/\\\(\s*([a-zA-Z][a-zA-Z0-9]{0,2})\s*\\\)/g\<close>.\<close>
  "renderFallbackContent content' renderAsMarkdown =
     (if renderAsMarkdown then
        (let c1 = replaceAll simpleVariableG content'
                    (\<lambda>m. js ''**'' @ the_grp content' (snd m) 1 @ js ''**'');
             c2 = replaceAll
                    (seqs [bs, ch CHR ''('', Rep (In [Space]) 0 None True,
                           Grp 1 (Seq (A (In letter))
                                      (Rep (In [rng CHR ''a'' CHR ''z'', rng CHR ''A'' CHR ''Z'',
                                                rng CHR ''0'' CHR ''9'']) 0 (Some 2) True)),
                           Rep (In [Space]) 0 None True, bs, ch CHR '')''])
                    c1 (\<lambda>m. js ''***'' @ the_grp c1 (snd m) 1 @ js ''***'')
         in JMarkdown [] c2 None)
      else JElem ''span'' [(''className'', js ''whitespace-pre-line'')]
             (processTextWithSmallVariables content'))"

definition isBlockMatch :: "contentMatch \<Rightarrow> bool" where
  \<comment> \<open>The filter that keeps the block-level matches.\<close>
  "isBlockMatch m =
     (if type m = TMath then match blockStartPattern (content m) \<noteq> None
      else type m = TSmiles \<or> type m = THeading \<or> type m = TEnv)"

definition textElement :: "bool \<Rightarrow> jsstring \<Rightarrow> nat \<Rightarrow> jsstring \<Rightarrow> jsx" where
  \<comment> \<open>The element for a stretch of text between block-level matches; \<open>n\<close> goes to
      \<open>processTextFragmentWithPlaceholders\<close>, \<open>k\<close> is the key of the plain span.\<close>
  "textElement renderAsMarkdown txt n k =
     (if renderAsMarkdown then processTextFragmentWithPlaceholders txt n
      else JElem ''span'' [(''key'', k), (''className'', js ''whitespace-pre-line'')]
             (processTextWithSmallVariables txt))"

definition complexStep ::
  "jsstring \<Rightarrow> bool \<Rightarrow> jsx list \<times> nat \<Rightarrow> nat \<times> contentMatch \<Rightarrow> jsx list \<times> nat" where
  "complexStep content' renderAsMarkdown s im =
     (let elements = fst s; currentIndex = snd s; idx = fst im; m = snd im;
          textBefore = slice content' currentIndex (start m);
          before = (if start m > currentIndex \<and> trim textBefore \<noteq> []
                    then [textElement renderAsMarkdown textBefore idx
                            (js ''text-'' @ decimal idx)]
                    else [])
      in (elements @ before @ [renderMatchedContent m idx], end' m))"

definition wrapper :: "bool \<Rightarrow> jsx list \<Rightarrow> jsx" where
  \<comment> \<open>The outer element, the same in both pipelines.\<close>
  "wrapper inline children =
     (if inline then
        JElem ''span''
          [(''className'', js ''prose-inline''), (''role'', js ''presentation''),
           (''aria-label'', js ''Scientific content with mixed formatting'')] children
      else
        JElem ''div''
          [(''className'', js ''prose dark:prose-invert max-w-none''), (''role'', js ''article''),
           (''aria-label'', js ''Scientific document content'')] children)"

definition renderWithComplexProcessing :: "jsstring \<Rightarrow> bool \<Rightarrow> bool \<Rightarrow> jsx" where
  "renderWithComplexProcessing content' renderAsMarkdown inline =
     (let matches = parseContent content';
          blockMatches = filter isBlockMatch matches;
          (elements, currentIndex) =
             foldl (complexStep content' renderAsMarkdown) ([], 0) (enumerate 0 blockMatches);
          remainingText = drop currentIndex content';
          elements' = (if currentIndex < length content' \<and> trim remainingText \<noteq> []
                       then elements @ [textElement renderAsMarkdown remainingText currentIndex
                                          (js ''text-final'')]
                       else elements)
      in wrapper inline
           (if elements' \<noteq> [] then elements' else [renderFallbackContent content' renderAsMarkdown]))"

definition renderWithPlaceholders :: "jsstring \<Rightarrow> bool \<Rightarrow> jsx" where
  "renderWithPlaceholders content' inline =
     wrapper inline [processTextFragmentWithPlaceholders content' 0]"

definition hasComplexStructures :: "jsstring \<Rightarrow> bool" where
  "hasComplexStructures text =
     (findTopLevelEnvs text \<noteq> [] \<or> includes_str text (bsl # js ''['')
      \<or> includes_str text (js ''$$''))"

definition invalidContentAlert :: jsx where
  "invalidContentAlert =
     JElem ''div''
       [(''className'', js ''error-message bg-red-50 border border-red-200 rounded-md p-3''),
        (''role'', js ''alert''), (''aria-live'', js ''polite'')]
       [JElem ''p'' [(''className'', js ''text-red-800'')]
          [JText (js ''Invalid or potentially unsafe content'')]]"

definition RichText :: "jsstring \<Rightarrow> bool \<Rightarrow> bool \<Rightarrow> jsx option" where
  \<comment> \<open>\<open>None\<close> is the \<open>null\<close> returned for an empty \<open>content\<close>.\<close>
  "RichText content' renderAsMarkdown inline =
     (if content' = [] then None
      else if \<not> validateMarkdownContent content' then Some invalidContentAlert
      else if hasComplexStructures content' \<or> \<not> renderAsMarkdown
        then Some (renderWithComplexProcessing content' renderAsMarkdown inline)
      else Some (renderWithPlaceholders content' inline))"

section \<open>Properties of the matcher and of the string operations\<close>

declare search.simps [simp del] execAll.simps [simp del] matchAll.simps [simp del]
  splitLoop.simps [simp del]

lemma slice_append:
  assumes "p \<le> q" "q \<le> e"
  shows "slice t p q @ slice t q e = slice t p e"
proof -
  have "take ((q - p) + (e - q)) (drop p t) =
          take (q - p) (drop p t) @ take (e - q) (drop (q - p) (drop p t))"
    by (rule take_add)
  with assms show ?thesis
    by (simp add: slice_def)
qed

lemma slice_to_end: "slice t p (length t) = drop p t"
  by (simp add: slice_def)

lemma slice_drop:
  assumes "p \<le> e"
  shows "slice t p e @ drop e t = drop p t"
proof -
  have "take (e - p) (drop p t) @ drop (e - p) (drop p t) = drop p t"
    by (rule append_take_drop_id)
  with assms show ?thesis
    by (simp add: slice_def)
qed

lemma match_at_Grp:
  "match_at (Grp n r) t q = Some st \<Longrightarrow> grp t st n = Some (slice t q (pos st))"
  by (auto simp: match_at_def grp_def split: list.splits)

section \<open>splitLatex\<close>

lemma join_simps [simp]:
  "join [] = []" "join (Some x # ps) = x @ join ps" "join (xs @ ys) = join xs @ join ys"
  by (simp_all add: join_def)

text \<open>
  When the capture groups of a pattern are one group around the whole match, the
  separators that \<open>split\<close> drops come back as captures, so nothing is lost.
\<close>

lemma splitLoop_join:
  assumes whole: "\<And>q st. match_at r t q = Some st \<Longrightarrow>
            map (grp t st) [1 ..< Suc (ngroups r)] = [Some (slice t q (pos st))]"
  shows "p \<le> q \<Longrightarrow> q \<le> length t \<Longrightarrow>
         join (splitLoop r t p q) = drop p t \<and> None \<notin> set (splitLoop r t p q)"
  using whole
proof (induction r t p q rule: splitLoop.induct)
  case (1 r t p q)
  note whole = "1.prems"(3)
  show ?case
  proof (cases "q < length t")
    case False
    with "1.prems" show ?thesis
      by (subst (1 2) splitLoop.simps) (simp add: slice_to_end)
  next
    case lt: True
    show ?thesis
    proof (cases "match_at r t q")
      case None
      with lt "1.prems" "1.IH"(1) [OF lt None] show ?thesis
        by (subst (1 2) splitLoop.simps) simp
    next
      case (Some st)
      from match_at_pos [OF Some] lt have b: "q \<le> pos st" "pos st \<le> length t"
        by simp_all
      define e where "e = min (pos st) (length t)"
      with b have e: "e = pos st"
        by simp
      show ?thesis
      proof (cases "e = p")
        case True
        with lt Some "1.prems" "1.IH"(2) [OF lt Some e_def True] show ?thesis
          by (subst (1 2) splitLoop.simps) (simp add: e_def)
      next
        case False
        from "1.IH"(3) [OF lt Some e_def False] b e whole
        have ih: "join (splitLoop r t e e) = drop e t" "None \<notin> set (splitLoop r t e e)"
          by simp_all
        have unfold: "splitLoop r t p q =
                Some (slice t p q) # map (grp t st) [1 ..< Suc (ngroups r)] @ splitLoop r t e e"
          using lt Some False by (subst splitLoop.simps) (simp add: e_def Let_def)
        have "join (splitLoop r t p q) = slice t p q @ slice t q e @ drop e t"
          using whole [OF Some] ih(1) e by (simp add: unfold)
        also have "\<dots> = drop p t"
          using "1.prems"(1) b e by (simp add: slice_drop)
        finally have "join (splitLoop r t p q) = drop p t" .
        moreover have "None \<notin> set (splitLoop r t p q)"
          using whole [OF Some] ih(2) by (simp add: unfold)
        ultimately show ?thesis
          by simp
      qed
    qed
  qed
qed

lemma ngroups_splitPattern: "ngroups splitPattern = 1"
  by (simp add: splitPattern_def bs_def ch_def str_def)

text \<open>
  C9. For every string, the parts that \<open>splitLatex\<close> returns, concatenated in order,
  are the string again; no part is \<open>undefined\<close>, so the concatenation leaves nothing
  out.
\<close>

theorem splitLatex_roundtrip:
  "join (splitLatex s) = s \<and> None \<notin> set (splitLatex s)"
proof (cases "s = []")
  case True
  then show ?thesis
    by (simp add: splitLatex_def split_def)
next
  case False
  have "join (splitLoop splitPattern s 0 0) = drop 0 s
          \<and> None \<notin> set (splitLoop splitPattern s 0 0)"
  proof (rule splitLoop_join)
    fix q st
    assume "match_at splitPattern s q = Some st"
    then have "grp s st 1 = Some (slice s q (pos st))"
      unfolding splitPattern_def by (rule match_at_Grp)
    then show "map (grp s st) [1 ..< Suc (ngroups splitPattern)] = [Some (slice s q (pos st))]"
      by (simp add: ngroups_splitPattern)
  qed simp_all
  with False show ?thesis
    by (simp add: splitLatex_def split_def)
qed

end
